theory Spec2Isabelle
  imports Complex_Main "HOL-Library.Sublist" "HOL-Library.Word"
begin

section \<open>JavaScript values used by the transcription services\<close>

text \<open>
  A JavaScript string is a sequence of UTF-16 code units; a code unit is modelled as a
  natural number. \<open>js\<close> turns an ASCII literal into its code units.
\<close>

type_synonym jstring = "nat list"

definition js :: "string \<Rightarrow> jstring" where
  "js s = map of_char s"

text \<open>
  \<open>String.prototype.trim\<close> removes WhiteSpace and LineTerminator code units
  (ECMAScript 12.2 and 12.3) from both ends.
\<close>

definition isWhiteSpace :: "nat \<Rightarrow> bool" where
  "isWhiteSpace c \<longleftrightarrow>
     c = 0x09 \<or> c = 0x0A \<or> c = 0x0B \<or> c = 0x0C \<or> c = 0x0D \<or> c = 0x20 \<or> c = 0xA0 \<or>
     c = 0x1680 \<or> (0x2000 \<le> c \<and> c \<le> 0x200A) \<or> c = 0x2028 \<or> c = 0x2029 \<or>
     c = 0x202F \<or> c = 0x205F \<or> c = 0x3000 \<or> c = 0xFEFF"

definition trim :: "jstring \<Rightarrow> jstring" where
  "trim s = rev (dropWhile isWhiteSpace (rev (dropWhile isWhiteSpace s)))"

text \<open>
  \<open>String.prototype.toLowerCase\<close>, exact on Basic Latin and Latin-1 Supplement
  (A-Z and the capitals U+00C0..U+00DE except the multiplication sign); code units
  above U+00FF are left as they are. The only use is the search for \<open>not authorized\<close>
  in an error message, and the characters above U+00FF do not change its result: the
  lower case of none of them is a letter of that text, except U+0130, which becomes
  \<open>i\<close> followed by U+0307, and an \<open>i\<close> followed by U+0307 is not inside a match.
\<close>

definition lowerUnit :: "nat \<Rightarrow> nat" where
  "lowerUnit c =
     (if 0x41 \<le> c \<and> c \<le> 0x5A then c + 0x20
      else if 0xC0 \<le> c \<and> c \<le> 0xDE \<and> c \<noteq> 0xD7 then c + 0x20
      else c)"

definition toLowerCase :: "jstring \<Rightarrow> jstring" where
  "toLowerCase s = map lowerUnit s"

text \<open>\<open>String.prototype.includes\<close>: the pattern occurs at some position.\<close>

fun includes_str :: "jstring \<Rightarrow> jstring \<Rightarrow> bool" where
  "includes_str [] p = (p = [])"
| "includes_str (c # cs) p = (prefix p (c # cs) \<or> includes_str cs p)"

text \<open>A JavaScript number: a finite value or one of the three non-finite ones.\<close>

datatype jsnumber = Finite rat | NaN | PosInfinity | NegInfinity

fun isFinite :: "jsnumber \<Rightarrow> bool" where
  "isFinite (Finite _) = True"
| "isFinite _ = False"

text \<open>\<open>x > 0\<close> on numbers; any comparison with \<open>NaN\<close> is false.\<close>

fun gtZero :: "jsnumber \<Rightarrow> bool" where
  "gtZero (Finite q) = (0 < q)"
| "gtZero PosInfinity = True"
| "gtZero _ = False"

text \<open>
  A parsed JSON value. A property that is absent reads as \<open>undefined\<close>, modelled by
  \<open>None\<close>; only objects have the properties the channel reads.
\<close>

datatype json =
    JNull
  | JBool bool
  | JNum jsnumber
  | JStr jstring
  | JArr "json list"
  | JObj "(jstring \<times> json) list"

fun getProp :: "json option \<Rightarrow> jstring \<Rightarrow> json option" where
  "getProp (Some (JObj kvs)) k = map_of kvs k"
| "getProp _ k = None"

fun truthy :: "json option \<Rightarrow> bool" where
  "truthy None = False"
| "truthy (Some JNull) = False"
| "truthy (Some (JBool b)) = b"
| "truthy (Some (JNum n)) = (n \<noteq> Finite 0 \<and> n \<noteq> NaN)"
| "truthy (Some (JStr s)) = (s \<noteq> [])"
| "truthy (Some (JArr _)) = True"
| "truthy (Some (JObj _)) = True"

section \<open>The streaming channel (AssemblyAiRealtimeClient)\<close>

datatype AssemblyAiTranscriptEvent =
    SessionBegin "json option"
  | TranscriptUpdate (upd_text: jstring) (upd_is_final: bool)
      (upd_end_of_turn: "bool option") (upd_formatted: "bool option")
  | SessionTerminated
  | ErrorEvent jstring

datatype encoding = Pcm_s16le | Pcm_mulaw

datatype readyState = CONNECTING | OPEN | CLOSING | CLOSED

record AssemblyAiRealtimeClientOptions =
  opt_apiKey :: jstring
  opt_sampleRate :: jsnumber
  opt_encoding :: "encoding option"
  opt_formatTurns :: "bool option"
  opt_endOfTurnConfidenceThreshold :: "jsnumber option"
  opt_minEndOfTurnSilenceMs :: "jsnumber option"
  opt_maxTurnSilenceMs :: "jsnumber option"
  opt_keytermsPrompt :: "jstring list option"

text \<open>The field \<open>ws\<close> holds the ready state of the socket, \<open>None\<close> for \<open>null\<close>.\<close>

record AssemblyAiRealtimeClient =
  ws :: "readyState option"
  apiKey :: jstring
  sampleRate :: jsnumber
  encoding :: encoding
  formatTurns :: bool
  endOfTurnConfidenceThreshold :: "jsnumber option"
  minEndOfTurnSilenceMs :: "jsnumber option"
  maxTurnSilenceMs :: "jsnumber option"
  keytermsPrompt :: "jstring list option"

definition newClient :: "AssemblyAiRealtimeClientOptions \<Rightarrow> AssemblyAiRealtimeClient" where
  "newClient opts =
     \<lparr> ws = None,
       apiKey = opt_apiKey opts,
       sampleRate = opt_sampleRate opts,
       encoding = (case opt_encoding opts of None \<Rightarrow> Pcm_s16le | Some e \<Rightarrow> e),
       formatTurns = (case opt_formatTurns opts of None \<Rightarrow> True | Some b \<Rightarrow> b),
       endOfTurnConfidenceThreshold = opt_endOfTurnConfidenceThreshold opts,
       minEndOfTurnSilenceMs = opt_minEndOfTurnSilenceMs opts,
       maxTurnSilenceMs = opt_maxTurnSilenceMs opts,
       keytermsPrompt = opt_keytermsPrompt opts \<rparr>"

text \<open>What is written to the socket: a text frame or a binary audio frame.\<close>

datatype frame = TextFrame jstring | AudioFrame "8 word list"

text \<open>
  \<open>sendPcm16Chunk\<close>: the chunk is sent only on an open socket, otherwise dropped.
  The result lists the frames written.
\<close>

definition sendPcm16Chunk :: "AssemblyAiRealtimeClient \<Rightarrow> 8 word list \<Rightarrow> frame list" where
  "sendPcm16Chunk c pcm16 =
     (if ws c = None \<or> ws c \<noteq> Some OPEN then [] else [AudioFrame pcm16])"

text \<open>
  \<open>terminate\<close>: nothing without a socket; otherwise the termination message on an
  open socket, then close, and the socket is forgotten.
\<close>

definition terminate :: "AssemblyAiRealtimeClient \<Rightarrow> AssemblyAiRealtimeClient \<times> frame list" where
  "terminate c =
     (if ws c = None then (c, [])
      else (c\<lparr>ws := None\<rparr>,
            if ws c = Some OPEN then [TextFrame (js ''{\"type\":\"Terminate\"}'')] else []))"

text \<open>
  \<open>handleMessageString\<close>, on the text of an inbound message. \<open>parse\<close> stands for
  \<open>JSON.parse\<close>, with \<open>None\<close> when it throws. The result lists the events emitted.
\<close>

definition handleMessageString ::
  "(jstring \<Rightarrow> json option) \<Rightarrow> AssemblyAiRealtimeClient \<Rightarrow> jstring
     \<Rightarrow> AssemblyAiTranscriptEvent list" where
  "handleMessageString parse c dataStr =
     (if dataStr = [] then []
      else case parse dataStr of
        None \<Rightarrow> []
      | Some msg \<Rightarrow>
          (let type = getProp (Some msg) (js ''type'') in
           if type = Some (JStr (js ''Begin'')) then [SessionBegin (getProp (Some msg) (js ''id''))]
           else if type = Some (JStr (js ''Turn'')) then
             (let transcript = getProp (Some msg) (js ''transcript'');
                  endOfTurn = truthy (getProp (Some msg) (js ''end_of_turn''));
                  formatted = truthy (getProp (Some msg) (js ''turn_is_formatted''))
              in case transcript of
                   Some (JStr t) \<Rightarrow>
                     (if length t > 0 then
                        (let isFinal = (endOfTurn \<and> (formatted \<or> \<not> formatTurns c))
                         in [TranscriptUpdate t isFinal (Some endOfTurn) (Some formatted)])
                      else [])
                 | _ \<Rightarrow> [])
           else if type = Some (JStr (js ''Termination'')) then [SessionTerminated]
           else
             (let err = (if truthy (getProp (Some msg) (js ''error''))
                         then getProp (Some msg) (js ''error'')
                         else getProp (Some msg) (js ''message''))
              in case err of
                   Some (JStr e) \<Rightarrow> (if trim e \<noteq> [] then [ErrorEvent (trim e)] else [])
                 | _ \<Rightarrow> [])))"

section \<open>The transcript reconciler and session controller (LiveTranscribeService)\<close>

record config =
  cfg_sampleRate :: jsnumber
  cfg_chunkSizeSamples :: jsnumber
  cfg_encoding :: encoding
  cfg_formatTurns :: bool
  cfg_endOfTurnConfidenceThreshold :: jsnumber
  cfg_minEndOfTurnSilenceMs :: jsnumber
  cfg_maxTurnSilenceMs :: jsnumber

text \<open>
  The argument of \<open>start\<close>: \<open>onFinalText\<close> is mandatory, the two preview callbacks
  are optional, so only their presence is recorded.
\<close>

record target =
  onPartialText :: bool
  onPreviewText :: bool

text \<open>The commit callback in use: the caller's, or the insertion at the editor's cursor.\<close>

datatype final_handler = OnFinalText | InsertFinalAtCursor

text \<open>A capture handle remembers what \<open>startMicPcm16Capture\<close> was called with.\<close>

record MicCaptureHandle =
  mic_chunkSizeSamples :: jsnumber
  mic_sampleRate :: jsnumber

text \<open>
  Everything the service does to the outside is a list of effects, in the order of the
  calls: the callbacks it invokes, the notices it shows, the frames it writes to the
  socket, and the requests it makes to the channel and to the audio capture.
\<close>

datatype effect =
    InsertFinal final_handler jstring
  | InsertPartial jstring
  | InsertPreview jstring
  | StatusText jstring
  | RunningChange bool
  | Notice jstring
  | UnsubAai
  | WsSend frame
  | ConnectRequest
  | MicStartRequest jsnumber jsnumber
  | MicStop

text \<open>
  The fields of the class. An optional callback of the constructor is a flag (supplied
  or not); \<open>unsubAai\<close> is set while the event handler is registered on the channel.
\<close>

record LiveTranscribeService =
  getKeytermsPrompt :: bool
  onStatusText :: bool
  onRunningChange :: bool
  mic :: "MicCaptureHandle option"
  aai :: "AssemblyAiRealtimeClient option"
  unsubAai :: bool
  finalized :: jstring
  current :: jstring
  pendingUnformatted :: jstring
  running :: bool
  insertFinalHandler :: "final_handler option"
  insertPartialHandler :: bool
  insertPreviewHandler :: bool

definition call_onStatusText :: "LiveTranscribeService \<Rightarrow> jstring \<Rightarrow> effect list" where
  "call_onStatusText s t = (if onStatusText s then [StatusText t] else [])"

definition call_onRunningChange :: "LiveTranscribeService \<Rightarrow> bool \<Rightarrow> effect list" where
  "call_onRunningChange s b = (if onRunningChange s then [RunningChange b] else [])"

definition call_insertFinalHandler :: "LiveTranscribeService \<Rightarrow> jstring \<Rightarrow> effect list" where
  "call_insertFinalHandler s t =
     (case insertFinalHandler s of None \<Rightarrow> [] | Some h \<Rightarrow> [InsertFinal h t])"

definition call_insertPartialHandler :: "LiveTranscribeService \<Rightarrow> jstring \<Rightarrow> effect list" where
  "call_insertPartialHandler s t = (if insertPartialHandler s then [InsertPartial t] else [])"

definition call_insertPreviewHandler :: "LiveTranscribeService \<Rightarrow> jstring \<Rightarrow> effect list" where
  "call_insertPreviewHandler s t = (if insertPreviewHandler s then [InsertPreview t] else [])"

definition listening :: jstring where
  "listening = js ''Listening'' @ [0x2026]"

text \<open>\<open>flushPendingUnformatted\<close>. In JavaScript \<open>a || b\<close> is \<open>b\<close> when \<open>a\<close> is the empty string.\<close>

definition flushPendingUnformatted ::
  "LiveTranscribeService \<Rightarrow> LiveTranscribeService \<times> effect list" where
  "flushPendingUnformatted s =
     (let fallback = trim (if pendingUnformatted s \<noteq> [] then pendingUnformatted s
                           else if current s \<noteq> [] then current s else [])
      in if fallback = [] then (s, [])
         else (s\<lparr>finalized := finalized s @ fallback @ js '' '',
                 current := [],
                 pendingUnformatted := []\<rparr>,
               call_insertFinalHandler s fallback @ call_insertPartialHandler s []))"

definition cleanup :: "LiveTranscribeService \<Rightarrow> LiveTranscribeService \<times> effect list" where
  "cleanup s =
     (s\<lparr>unsubAai := False,
         insertFinalHandler := None,
         insertPartialHandler := False,
         insertPreviewHandler := False,
         aai := None,
         mic := None\<rparr>,
      (if unsubAai s then [UnsubAai] else [])
      @ call_insertPartialHandler s []
      @ call_insertPreviewHandler s []
      @ (case aai s of None \<Rightarrow> [] | Some c \<Rightarrow> map WsSend (snd (terminate c)))
      @ (case mic s of None \<Rightarrow> [] | Some m \<Rightarrow> [MicStop])
      @ call_onStatusText s [])"

definition stop :: "LiveTranscribeService \<Rightarrow> LiveTranscribeService \<times> effect list" where
  "stop s =
     (if \<not> running s then (s, [])
      else
        (let (s1, e1) = flushPendingUnformatted s;
             s2 = s1\<lparr>running := False\<rparr>;
             e2 = call_onRunningChange s2 False
                  @ call_onStatusText s2 (js ''Stopping'' @ [0x2026]);
             (s3, e3) = cleanup s2
         in (s3, e1 @ e2 @ e3 @ [Notice (js ''Live transcription stopped.'')])))"

definition handleAaiEvent ::
  "LiveTranscribeService \<Rightarrow> AssemblyAiTranscriptEvent \<Rightarrow> LiveTranscribeService \<times> effect list" where
  "handleAaiEvent s ev =
     (case ev of
        TranscriptUpdate txt final eot fmt \<Rightarrow>
          (let (s1, e1) =
                 (if final then
                    (s\<lparr>finalized := finalized s @ trim txt @ js '' '',
                       current := [],
                       pendingUnformatted := []\<rparr>,
                     call_insertFinalHandler s txt @ call_insertPartialHandler s [])
                  else
                    ((if eot = Some True \<and> fmt = Some False
                      then s\<lparr>current := txt, pendingUnformatted := txt\<rparr>
                      else s\<lparr>current := txt\<rparr>),
                     call_insertPartialHandler s txt));
               preview = trim (finalized s1 @ current s1)
           in (s1, e1 @ call_onStatusText s1 (if preview \<noteq> [] then preview else listening)
                      @ call_insertPreviewHandler s1 preview))
      | SessionTerminated \<Rightarrow> flushPendingUnformatted s
      | ErrorEvent message \<Rightarrow>
          (let e1 = call_onStatusText s (js ''Transcription error.'')
                    @ [Notice (js ''Transcription error: '' @ message)]
           in if includes_str (toLowerCase message) (js ''not authorized'')
              then (let (s', e2) = stop s in (s', e1 @ e2))
              else (s, e1))
      | SessionBegin _ \<Rightarrow> (s, []))"

text \<open>Events are handled one after the other, in arrival order.\<close>

fun handleAll ::
  "LiveTranscribeService \<Rightarrow> AssemblyAiTranscriptEvent list \<Rightarrow> LiveTranscribeService \<times> effect list" where
  "handleAll s [] = (s, [])"
| "handleAll s (ev # evs) =
     (let (s1, e1) = handleAaiEvent s ev; (s2, e2) = handleAll s1 evs in (s2, e1 @ e2))"

text \<open>The audio capture's chunk callback: \<open>this.aai?.sendPcm16Chunk(chunk)\<close>.\<close>

definition onPcm16Chunk :: "LiveTranscribeService \<Rightarrow> 8 word list \<Rightarrow> effect list" where
  "onPcm16Chunk s chunk =
     (case aai s of None \<Rightarrow> [] | Some c \<Rightarrow> map WsSend (sendPcm16Chunk c chunk))"

text \<open>The texts handed to the commit callback, in call order.\<close>

fun commits :: "effect list \<Rightarrow> jstring list" where
  "commits [] = []"
| "commits (InsertFinal h t # es) = t # commits es"
| "commits (e # es) = commits es"

subsection \<open>The asynchronous \<open>start\<close>\<close>

text \<open>
  \<open>start\<close> is an async function with three \<open>await\<close>s: the vocabulary hints, the
  connection of the channel, and the start of the audio capture. It is modelled as four
  steps, one from the call to the first \<open>await\<close> and one from each \<open>await\<close> to the
  next; other events may be handled between two steps. The local variables that live
  across an \<open>await\<close> are kept in a frame, and what the awaited operation answered is
  an argument of the step that resumes.
\<close>

record start_frame =
  fr_target :: "target option"
  fr_apiKey :: jstring
  fr_config :: config
  fr_sampleRate :: jsnumber
  fr_chunkSizeSamples :: jsnumber

datatype keyterms_outcome = KeytermsResolved "jstring list" | KeytermsRejected

datatype connect_outcome = ConnectResolved | ConnectRejected jstring "readyState option"

datatype mic_outcome = MicResolved | MicRejected jstring

text \<open>
  From the call to the first \<open>await\<close>. \<open>key\<close> is what \<open>getAssemblyAiApiKey\<close> returns
  (\<open>None\<close> for a missing value, which \<open>?.trim()\<close> leaves undefined and the guard
  treats like the empty string) and \<open>cfg\<close> what \<open>getAssemblyAiConfig\<close> returns.
  The frame is \<open>None\<close> when \<open>start\<close> has returned at a guard.
\<close>

definition start_enter ::
  "LiveTranscribeService \<Rightarrow> target option \<Rightarrow> jstring option \<Rightarrow> config
     \<Rightarrow> LiveTranscribeService \<times> effect list \<times> start_frame option" where
  "start_enter s tgt key cfg =
     (if running s then (s, [], None)
      else
        (let apiKey = (case key of None \<Rightarrow> [] | Some k \<Rightarrow> trim k) in
         if apiKey = [] then
           (s, [Notice (js ''Missing AssemblyAI API key. Set it in plugin settings.'')], None)
         else
           (let sampleRate =
                  (if isFinite (cfg_sampleRate cfg) \<and> gtZero (cfg_sampleRate cfg)
                   then cfg_sampleRate cfg else Finite 16000);
                chunkSizeSamples =
                  (if isFinite (cfg_chunkSizeSamples cfg) \<and> gtZero (cfg_chunkSizeSamples cfg)
                   then cfg_chunkSizeSamples cfg else Finite 800)
            in (s, [],
                Some \<lparr> fr_target = tgt,
                       fr_apiKey = apiKey,
                       fr_config = cfg,
                       fr_sampleRate = sampleRate,
                       fr_chunkSizeSamples = chunkSizeSamples \<rparr>))))"

text \<open>From the answer of the vocabulary hints to \<open>await this.aai.connect()\<close>.\<close>

definition start_after_keyterms ::
  "LiveTranscribeService \<Rightarrow> start_frame \<Rightarrow> keyterms_outcome
     \<Rightarrow> LiveTranscribeService \<times> effect list" where
  "start_after_keyterms s fr kt =
     (let keytermsPrompt =
            (if getKeytermsPrompt s
             then (case kt of KeytermsResolved l \<Rightarrow> Some l | KeytermsRejected \<Rightarrow> None)
             else None);
          s1 = s\<lparr>insertFinalHandler :=
                     Some (case fr_target fr of Some t \<Rightarrow> OnFinalText | None \<Rightarrow> InsertFinalAtCursor),
                   insertPartialHandler :=
                     (case fr_target fr of Some t \<Rightarrow> onPartialText t | None \<Rightarrow> False),
                   insertPreviewHandler :=
                     (case fr_target fr of Some t \<Rightarrow> onPreviewText t | None \<Rightarrow> False),
                   finalized := [],
                   current := [],
                   running := True\<rparr>;
          e1 = call_onRunningChange s1 True
               @ call_onStatusText s1 (js ''Starting transcription'' @ [0x2026]);
          s2 = s1\<lparr>aai := Some (newClient
                     \<lparr> opt_apiKey = fr_apiKey fr,
                       opt_sampleRate = fr_sampleRate fr,
                       opt_encoding = Some (cfg_encoding (fr_config fr)),
                       opt_formatTurns = Some (cfg_formatTurns (fr_config fr)),
                       opt_endOfTurnConfidenceThreshold =
                         Some (cfg_endOfTurnConfidenceThreshold (fr_config fr)),
                       opt_minEndOfTurnSilenceMs = Some (cfg_minEndOfTurnSilenceMs (fr_config fr)),
                       opt_maxTurnSilenceMs = Some (cfg_maxTurnSilenceMs (fr_config fr)),
                       opt_keytermsPrompt = keytermsPrompt \<rparr>),
                   unsubAai := True\<rparr>
      in (s2, e1 @ [ConnectRequest]))"

text \<open>
  From the answer of \<open>connect\<close> to the call of \<open>startMicPcm16Capture\<close>. A resolved
  connection has an open socket; a rejected one carries the error message and the state
  of the socket, if one was created. The result flag says whether \<open>start\<close> goes on to
  await the audio capture.
\<close>

definition start_after_connect ::
  "LiveTranscribeService \<Rightarrow> start_frame \<Rightarrow> connect_outcome
     \<Rightarrow> LiveTranscribeService \<times> effect list \<times> bool" where
  "start_after_connect s fr co =
     (case co of
        ConnectRejected msg w \<Rightarrow>
          (let s0 = s\<lparr>aai := map_option (\<lambda>c. c\<lparr>ws := w\<rparr>) (aai s)\<rparr>;
               e1 = call_onStatusText s0 (js ''Failed to connect.'');
               s1 = s0\<lparr>running := False\<rparr>;
               (s2, e2) = cleanup s1
           in (s2, e1 @ [Notice (js ''AssemblyAI connect failed: '' @ msg)] @ e2, False))
      | ConnectResolved \<Rightarrow>
          (s\<lparr>aai := map_option (\<lambda>c. c\<lparr>ws := Some OPEN\<rparr>) (aai s)\<rparr>,
           [MicStartRequest (fr_chunkSizeSamples fr) (fr_sampleRate fr)], True))"

text \<open>From the answer of the audio capture to the end of \<open>start\<close>.\<close>

definition start_after_mic ::
  "LiveTranscribeService \<Rightarrow> start_frame \<Rightarrow> mic_outcome
     \<Rightarrow> LiveTranscribeService \<times> effect list" where
  "start_after_mic s fr mo =
     (case mo of
        MicRejected msg \<Rightarrow>
          (let (s1, e1) = stop s in (s1, [Notice (js ''Microphone failed: '' @ msg)] @ e1))
      | MicResolved \<Rightarrow>
          (let s1 = s\<lparr>mic := Some \<lparr> mic_chunkSizeSamples = fr_chunkSizeSamples fr,
                                    mic_sampleRate = fr_sampleRate fr \<rparr>\<rparr>
           in (s1, call_onStatusText s1 listening
                   @ [Notice (js ''Live transcription started.'')])))"

section \<open>Ownership of the session (the plugin's \<open>startRecordingForBlock\<close>)\<close>

record RecordedTranscribeService =
  recording :: bool
  transcribing :: bool

datatype RecordingMode = StreamMode | FileMode

record block_opts =
  blockId :: jstring
  sourcePath :: jstring
  mode :: RecordingMode
  block_target :: target

text \<open>
  The fields of the plugin that decide who may record. The owner of the live session is
  \<open>streamRecordingBlockId\<close>: a block's id, or \<open>None\<close> for the ad-hoc session.
\<close>

record TuonScribePlugin =
  liveTranscribe :: "LiveTranscribeService option"
  recordedTranscribe :: "RecordedTranscribeService option"
  streamRecordingBlockId :: "jstring option"
  fileRecordingBlockId :: "jstring option"
  assemblyAiApiKey :: "jstring option"
  assemblyAiConfig :: config

text \<open>A value of type \<open>string | null\<close> is truthy when it is a non-empty string.\<close>

fun truthyId :: "jstring option \<Rightarrow> bool" where
  "truthyId None = False"
| "truthyId (Some b) = (b \<noteq> [])"

text \<open>
  Both functions are async; they are modelled from the call to their first \<open>await\<close>.
  The outcome is the value returned, when the function returns before it awaits, or
  the operation it awaits.
\<close>

datatype block_start =
    BlockReturned bool
  | BlockAwaitLiveStart "start_frame option"
  | BlockAwaitStartRecording

definition startFileRecordingForBlock ::
  "TuonScribePlugin \<Rightarrow> block_opts \<Rightarrow> TuonScribePlugin \<times> effect list \<times> block_start" where
  "startFileRecordingForBlock p opts =
     (case recordedTranscribe p of
        None \<Rightarrow> (p, [], BlockReturned False)
      | Some r \<Rightarrow>
          if (case liveTranscribe p of None \<Rightarrow> False | Some lt \<Rightarrow> running lt) then
            (p, [Notice (js ''Live transcription is running. Stop it before recording audio.'')],
             BlockReturned False)
          else if (recording r \<or> transcribing r) \<and> truthyId (fileRecordingBlockId p)
                  \<and> fileRecordingBlockId p \<noteq> Some (blockId opts) then
            (p, [Notice (js ''Another scribe block is recording.'')], BlockReturned False)
          else if (recording r \<or> transcribing r) \<and> \<not> truthyId (fileRecordingBlockId p) then
            (p, [Notice (js ''Recorded transcription is already running.'')], BlockReturned False)
          else
            (p\<lparr>fileRecordingBlockId := Some (blockId opts)\<rparr>, [], BlockAwaitStartRecording))"

definition startRecordingForBlock ::
  "TuonScribePlugin \<Rightarrow> block_opts \<Rightarrow> TuonScribePlugin \<times> effect list \<times> block_start" where
  "startRecordingForBlock p opts =
     (if mode opts = FileMode then startFileRecordingForBlock p opts
      else case liveTranscribe p of
        None \<Rightarrow> (p, [], BlockReturned False)
      | Some lt \<Rightarrow>
          if (case recordedTranscribe p of None \<Rightarrow> False
              | Some r \<Rightarrow> recording r \<or> transcribing r) then
            (p, [Notice (js ''Recorded transcription is already running.'')], BlockReturned False)
          else if running lt \<and> truthyId (streamRecordingBlockId p)
                  \<and> streamRecordingBlockId p \<noteq> Some (blockId opts) then
            (p, [Notice (js ''Another scribe block is recording.'')], BlockReturned False)
          else if running lt \<and> \<not> truthyId (streamRecordingBlockId p) then
            (p, [Notice (js ''Live transcription is already running.'')], BlockReturned False)
          else
            (let p1 = p\<lparr>streamRecordingBlockId := Some (blockId opts)\<rparr>;
                 (lt', e, fr) = start_enter lt (Some (block_target opts))
                                  (assemblyAiApiKey p1) (assemblyAiConfig p1)
             in (p1\<lparr>liveTranscribe := Some lt'\<rparr>, e, BlockAwaitLiveStart fr)))"

text \<open>The notices by which a caller is told that somebody else holds the session.\<close>

definition busy_notices :: "jstring list" where
  "busy_notices =
     [js ''Another scribe block is recording.'',
      js ''Live transcription is already running.'',
      js ''Recorded transcription is already running.'',
      js ''Live transcription is running. Stop it before recording audio.'']"

section \<open>A concrete session\<close>

text \<open>
  The service as the plugin constructs it (every optional callback supplied, the fields
  at their initial values), a configuration, and the session reached by a \<open>start\<close>
  for a block whose connection and audio capture both succeed.
\<close>

definition newService :: LiveTranscribeService where
  "newService =
     \<lparr> getKeytermsPrompt = True, onStatusText = True, onRunningChange = True,
       mic = None, aai = None, unsubAai = False,
       finalized = [], current = [], pendingUnformatted = [],
       running = False,
       insertFinalHandler = None, insertPartialHandler = False, insertPreviewHandler = False \<rparr>"

definition config0 :: config where
  "config0 =
     \<lparr> cfg_sampleRate = Finite 16000, cfg_chunkSizeSamples = Finite 800,
       cfg_encoding = Pcm_s16le, cfg_formatTurns = True,
       cfg_endOfTurnConfidenceThreshold = Finite (7 / 10),
       cfg_minEndOfTurnSilenceMs = Finite 160, cfg_maxTurnSilenceMs = Finite 2400 \<rparr>"

definition target0 :: target where
  "target0 = \<lparr> onPartialText = True, onPreviewText = True \<rparr>"

definition frame0 :: start_frame where
  "frame0 =
     \<lparr> fr_target = Some target0, fr_apiKey = js ''key'', fr_config = config0,
       fr_sampleRate = Finite 16000, fr_chunkSizeSamples = Finite 800 \<rparr>"

text \<open>The three resuming steps of \<open>start\<close> in a row, all awaited operations succeeding.\<close>

definition start_resume_ok :: "LiveTranscribeService \<Rightarrow> start_frame \<Rightarrow> LiveTranscribeService" where
  "start_resume_ok s fr =
     fst (start_after_mic
            (fst (start_after_connect
                    (fst (start_after_keyterms s fr (KeytermsResolved [])))
                    fr ConnectResolved))
            fr MicResolved)"

definition active0 :: LiveTranscribeService where
  "active0 = start_resume_ok newService frame0"

text \<open>
  States and inputs used to evaluate the model: a session holding an unformatted
  end-of-turn partial; an unformatted end-of-turn partial of one space followed by the
  end of the session; a stopped service that went through such a partial; a partial
  followed by the end of the session; a turn message; a plugin whose live session is
  owned by block A, a request from block B, and a configuration with unusable numbers.
\<close>

definition pending0 :: LiveTranscribeService where
  "pending0 = fst (handleAaiEvent active0
                     (TranscriptUpdate (js ''testing'') False (Some True) (Some False)))"

definition blank_tail :: "AssemblyAiTranscriptEvent list" where
  "blank_tail = [TranscriptUpdate (js '' '') False (Some True) (Some False), SessionTerminated]"

definition stale0 :: LiveTranscribeService where
  "stale0 = fst (stop (fst (handleAaiEvent active0
                   (TranscriptUpdate (js '' '') False (Some True) (Some False)))))"

definition partial_tail :: "AssemblyAiTranscriptEvent list" where
  "partial_tail = [TranscriptUpdate (js ''hello'') False None None, SessionTerminated]"

definition turn_msg :: "jstring \<Rightarrow> bool \<Rightarrow> bool \<Rightarrow> json" where
  "turn_msg t e f =
     JObj [(js ''type'', JStr (js ''Turn'')), (js ''transcript'', JStr t),
           (js ''end_of_turn'', JBool e), (js ''turn_is_formatted'', JBool f)]"

definition plugin0 :: TuonScribePlugin where
  "plugin0 =
     \<lparr> liveTranscribe = Some active0,
       recordedTranscribe = Some \<lparr> recording = False, transcribing = False \<rparr>,
       streamRecordingBlockId = Some (js ''blockA''),
       fileRecordingBlockId = None,
       assemblyAiApiKey = Some (js ''key''),
       assemblyAiConfig = config0 \<rparr>"

definition optsB :: block_opts where
  "optsB = \<lparr> blockId = js ''blockB'', sourcePath = js ''note.md'', mode = StreamMode,
             block_target = target0 \<rparr>"

definition config_bad :: config where
  "config_bad = config0\<lparr>cfg_sampleRate := NaN, cfg_chunkSizeSamples := Finite (- 5)\<rparr>"

section \<open>Projections of the effects\<close>

fun isUpdate :: "AssemblyAiTranscriptEvent \<Rightarrow> bool" where
  "isUpdate (TranscriptUpdate t f e m) = True"
| "isUpdate _ = False"

fun isFinalUpdate :: "AssemblyAiTranscriptEvent \<Rightarrow> bool" where
  "isFinalUpdate (TranscriptUpdate t f e m) = f"
| "isFinalUpdate _ = False"

text \<open>The texts handed to the status callback and to the preview callback.\<close>

fun statusTexts :: "effect list \<Rightarrow> jstring list" where
  "statusTexts [] = []"
| "statusTexts (StatusText t # es) = t # statusTexts es"
| "statusTexts (e # es) = statusTexts es"

fun previews :: "effect list \<Rightarrow> jstring list" where
  "previews [] = []"
| "previews (InsertPreview t # es) = t # previews es"
| "previews (e # es) = previews es"

section \<open>Basic facts\<close>

lemmas call_defs = call_onStatusText_def call_onRunningChange_def call_insertFinalHandler_def
  call_insertPartialHandler_def call_insertPreviewHandler_def

lemma trim_Nil [simp]: "trim [] = []"
  by (simp add: trim_def)

lemma commits_append [simp]: "commits (xs @ ys) = commits xs @ commits ys"
  by (induction xs rule: commits.induct) simp_all

lemma statusTexts_append [simp]: "statusTexts (xs @ ys) = statusTexts xs @ statusTexts ys"
  by (induction xs rule: statusTexts.induct) simp_all

lemma previews_append [simp]: "previews (xs @ ys) = previews xs @ previews ys"
  by (induction xs rule: previews.induct) simp_all

lemma commits_WsSend [simp]: "commits (map WsSend fs) = []"
  by (induction fs) simp_all

lemma start_enter0:
  "start_enter newService (Some target0) (Some (js '' key '')) config0 = (newService, [], Some frame0)"
  by (simp add: start_enter_def newService_def config0_def frame0_def js_def trim_def isWhiteSpace_def)

lemma active0_eq:
  "active0 =
     \<lparr> getKeytermsPrompt = True, onStatusText = True, onRunningChange = True,
       mic = Some \<lparr> mic_chunkSizeSamples = Finite 800, mic_sampleRate = Finite 16000 \<rparr>,
       aai = Some \<lparr> ws = Some OPEN, apiKey = js ''key'', sampleRate = Finite 16000,
                    encoding = Pcm_s16le, formatTurns = True,
                    endOfTurnConfidenceThreshold = Some (Finite (7 / 10)),
                    minEndOfTurnSilenceMs = Some (Finite 160),
                    maxTurnSilenceMs = Some (Finite 2400),
                    keytermsPrompt = Some [] \<rparr>,
       unsubAai = True,
       finalized = [], current = [], pendingUnformatted = [],
       running = True,
       insertFinalHandler = Some OnFinalText, insertPartialHandler = True,
       insertPreviewHandler = True \<rparr>"
  by (simp add: active0_def start_resume_ok_def start_after_mic_def start_after_connect_def
      start_after_keyterms_def newService_def frame0_def target0_def config0_def newClient_def
      Let_def)

lemmas eval_defs = handleAaiEvent_def flushPendingUnformatted_def stop_def cleanup_def
  call_defs trim_def isWhiteSpace_def js_def listening_def Let_def terminate_def

lemma pending0_eq:
  "pending0 = active0\<lparr>current := js ''testing'', pendingUnformatted := js ''testing''\<rparr>"
  by (simp add: pending0_def handleAaiEvent_def Let_def)

lemma stale0_eq:
  "stale0 = newService\<lparr>current := js '' '', pendingUnformatted := js '' ''\<rparr>"
  by (simp add: stale0_def active0_eq newService_def eval_defs)

text \<open>
  While the event handler is registered on the channel, a commit callback is installed:
  \<open>start\<close> installs it before it registers the handler, and \<open>cleanup\<close> is the only
  place that removes it, together with the registration.
\<close>

lemma registered_has_final_handler:
  "unsubAai (fst (start_after_keyterms s fr kt)) \<and>
     insertFinalHandler (fst (start_after_keyterms s fr kt)) \<noteq> None"
  "\<not> unsubAai (fst (cleanup s))"
  "running s \<Longrightarrow> \<not> unsubAai (fst (stop s))"
  "insertFinalHandler (fst (flushPendingUnformatted s)) = insertFinalHandler s"
  "unsubAai (fst (flushPendingUnformatted s)) = unsubAai s"
  by (simp_all add: start_after_keyterms_def cleanup_def stop_def flushPendingUnformatted_def
      Let_def case_prod_beta)

lemma handleAaiEvent_keeps_final_handler:
  assumes "unsubAai s \<longrightarrow> insertFinalHandler s \<noteq> None"
  shows "unsubAai (fst (handleAaiEvent s ev)) \<longrightarrow> insertFinalHandler (fst (handleAaiEvent s ev)) \<noteq> None"
  using assms
  by (cases ev)
     (auto simp: handleAaiEvent_def stop_def cleanup_def flushPendingUnformatted_def Let_def
        case_prod_beta)

section \<open>The committed transcript only grows\<close>

lemma flush_finalized_prefix:
  "prefix (finalized s) (finalized (fst (flushPendingUnformatted s)))"
  by (simp add: flushPendingUnformatted_def Let_def)

lemma cleanup_finalized [simp]: "finalized (fst (cleanup s)) = finalized s"
  by (simp add: cleanup_def)

lemma stop_finalized_prefix: "prefix (finalized s) (finalized (fst (stop s)))"
  using flush_finalized_prefix [of s]
  by (simp add: stop_def Let_def case_prod_beta)

lemma handleAaiEvent_finalized_prefix:
  "prefix (finalized s) (finalized (fst (handleAaiEvent s ev)))"
proof (cases ev)
  case (TranscriptUpdate t final eot fmt)
  then show ?thesis
    by (simp add: handleAaiEvent_def Let_def case_prod_beta)
next
  case SessionTerminated
  then show ?thesis
    by (simp add: handleAaiEvent_def flush_finalized_prefix)
next
  case (ErrorEvent msg)
  then show ?thesis
    using stop_finalized_prefix [of s]
    by (simp add: handleAaiEvent_def Let_def case_prod_beta)
qed (simp add: handleAaiEvent_def)

lemma handleAll_finalized_prefix:
  "prefix (finalized s) (finalized (fst (handleAll s evs)))"
proof (induction evs arbitrary: s)
  case Nil
  show ?case by simp
next
  case (Cons ev evs)
  obtain s1 e1 where h: "handleAaiEvent s ev = (s1, e1)"
    by (cases "handleAaiEvent s ev")
  have "prefix (finalized s) (finalized s1)"
    using handleAaiEvent_finalized_prefix [of s ev] h by simp
  moreover have "prefix (finalized s1) (finalized (fst (handleAll s1 evs)))"
    by (rule Cons.IH)
  ultimately show ?case
    using h by (auto simp: case_prod_beta intro: prefix_order.trans)
qed

text \<open>
  Claim C3. Whatever the state and the event, \<open>finalized\<close> before the event is a prefix
  of \<open>finalized\<close> after it; the same holds for a flush, for \<open>stop\<close>, and for any
  sequence of events handled one after the other. Nothing inside a session rewrites
  or shortens the committed text.
\<close>

theorem finalized_append_only:
  "prefix (finalized s) (finalized (fst (handleAaiEvent s ev)))
   \<and> prefix (finalized s) (finalized (fst (flushPendingUnformatted s)))
   \<and> prefix (finalized s) (finalized (fst (stop s)))
   \<and> prefix (finalized s) (finalized (fst (handleAll s evs)))"
  by (simp add: handleAaiEvent_finalized_prefix flush_finalized_prefix stop_finalized_prefix
      handleAll_finalized_prefix)

theorem finalized_append_only_witness:
  "prefix (finalized active0)
     (finalized (fst (handleAaiEvent active0 (TranscriptUpdate (js ''a'') True None None))))
   \<and> prefix (finalized active0) (finalized (fst (flushPendingUnformatted active0)))
   \<and> prefix (finalized active0) (finalized (fst (stop active0)))
   \<and> prefix (finalized active0)
       (finalized (fst (handleAll active0
          [TranscriptUpdate (js ''a'') True None None, SessionTerminated,
           TranscriptUpdate (js ''b'') True None None])))"
  by (rule finalized_append_only)

section \<open>Flushing twice\<close>

lemma flush_twice:
  "flushPendingUnformatted (fst (flushPendingUnformatted s)) =
     (fst (flushPendingUnformatted s), [])"
  by (simp add: flushPendingUnformatted_def Let_def)

lemma cleanup_commits [simp]: "commits (snd (cleanup s)) = []"
  by (simp add: cleanup_def call_defs split: option.splits)

lemma flush_then_stop_commits:
  "commits (snd (stop (fst (flushPendingUnformatted s)))) = []"
  using flush_twice [of s]
  by (simp add: stop_def Let_def call_defs case_prod_beta)

lemma flush_then_stop_finalized:
  "finalized (fst (stop (fst (flushPendingUnformatted s)))) =
     finalized (fst (flushPendingUnformatted s))"
  using flush_twice [of s]
  by (simp add: stop_def Let_def case_prod_beta)

lemma stop_twice: "stop (fst (stop s)) = (fst (stop s), [])"
  by (simp add: stop_def Let_def cleanup_def case_prod_beta)

text \<open>
  Claim C4. A flush right after a flush changes nothing and calls nothing. In
  particular, when \<open>SessionTerminated\<close> has been handled and \<open>stop\<close> follows, the
  flush inside \<open>stop\<close> commits nothing and leaves \<open>finalized\<close> as the first flush
  left it; and a \<open>stop\<close> right after a \<open>stop\<close> does nothing at all.
\<close>

theorem flush_idempotent:
  "flushPendingUnformatted (fst (flushPendingUnformatted s)) =
     (fst (flushPendingUnformatted s), [])
   \<and> commits (snd (stop (fst (handleAaiEvent s SessionTerminated)))) = []
   \<and> finalized (fst (stop (fst (handleAaiEvent s SessionTerminated)))) =
       finalized (fst (handleAaiEvent s SessionTerminated))
   \<and> stop (fst (stop s)) = (fst (stop s), [])"
  by (simp add: flush_twice flush_then_stop_commits flush_then_stop_finalized stop_twice
      handleAaiEvent_def)

theorem flush_idempotent_witness:
  "commits (snd (flushPendingUnformatted pending0)) = [js ''testing'']
   \<and> flushPendingUnformatted (fst (flushPendingUnformatted pending0)) =
       (fst (flushPendingUnformatted pending0), [])
   \<and> commits (snd (stop (fst (handleAaiEvent pending0 SessionTerminated)))) = []"
proof -
  have "commits (snd (flushPendingUnformatted pending0)) = [js ''testing'']"
    by (simp add: pending0_eq active0_eq eval_defs)
  then show ?thesis
    using flush_idempotent [of pending0] by simp
qed

section \<open>Final updates are committed exactly once, in order\<close>

lemma update_keeps_final_handler:
  "insertFinalHandler (fst (handleAaiEvent s (TranscriptUpdate t f e m))) = insertFinalHandler s"
  by (simp add: handleAaiEvent_def Let_def)

lemma update_commits:
  "insertFinalHandler s = Some h \<Longrightarrow>
   commits (snd (handleAaiEvent s (TranscriptUpdate t f e m))) = (if f then [t] else [])"
  by (simp add: handleAaiEvent_def Let_def call_defs)

lemma updates_commits:
  "insertFinalHandler s = Some h \<Longrightarrow> \<forall>ev\<in>set evs. isUpdate ev \<Longrightarrow>
   commits (snd (handleAll s evs)) = map upd_text (filter isFinalUpdate evs)"
proof (induction evs arbitrary: s)
  case Nil
  show ?case by simp
next
  case (Cons ev evs)
  from Cons.prems(2) obtain t f e m where ev: "ev = TranscriptUpdate t f e m"
    by (cases ev) simp_all
  let ?s1 = "fst (handleAaiEvent s ev)"
  have "insertFinalHandler ?s1 = Some h"
    using Cons.prems(1) ev by (simp add: update_keeps_final_handler)
  then have "commits (snd (handleAll ?s1 evs)) = map upd_text (filter isFinalUpdate evs)"
    using Cons.prems(2) by (intro Cons.IH) simp_all
  moreover have "commits (snd (handleAaiEvent s ev)) = (if f then [t] else [])"
    using Cons.prems(1) ev by (simp add: update_commits)
  ultimately show ?case
    using ev by (simp add: case_prod_beta)
qed

text \<open>
  Claim C1. In a session (a commit callback is installed), a final \<open>Update\<close> appends
  the trimmed text and one space to \<open>finalized\<close>, clears \<open>current\<close> and
  \<open>pendingUnformatted\<close>, calls the commit callback once with the text as it came
  (not trimmed), then the partial-preview callback, when the caller supplied one, with
  the empty string. For a sequence of \<open>Update\<close> events, final or not, the texts
  committed are the texts of the final ones, in their order of arrival; so there are as
  many commits as final updates.
\<close>

theorem final_update_commits_once:
  assumes "insertFinalHandler s = Some h"
  shows "handleAaiEvent s (TranscriptUpdate t True e m) =
           (s\<lparr>finalized := finalized s @ trim t @ js '' '', current := [], pendingUnformatted := []\<rparr>,
            [InsertFinal h t]
            @ (if insertPartialHandler s then [InsertPartial []] else [])
            @ call_onStatusText s
                (if trim (finalized s @ trim t @ js '' '') \<noteq> []
                 then trim (finalized s @ trim t @ js '' '') else listening)
            @ call_insertPreviewHandler s (trim (finalized s @ trim t @ js '' '')))
         \<and> commits (snd (handleAaiEvent s (TranscriptUpdate t True e m))) = [t]
         \<and> ((\<forall>ev\<in>set evs. isUpdate ev) \<longrightarrow>
              commits (snd (handleAll s evs)) = map upd_text (filter isFinalUpdate evs)
              \<and> length (commits (snd (handleAll s evs))) = length (filter isFinalUpdate evs))"
proof -
  have a: "handleAaiEvent s (TranscriptUpdate t True e m) =
           (s\<lparr>finalized := finalized s @ trim t @ js '' '', current := [], pendingUnformatted := []\<rparr>,
            [InsertFinal h t]
            @ (if insertPartialHandler s then [InsertPartial []] else [])
            @ call_onStatusText s
                (if trim (finalized s @ trim t @ js '' '') \<noteq> []
                 then trim (finalized s @ trim t @ js '' '') else listening)
            @ call_insertPreviewHandler s (trim (finalized s @ trim t @ js '' '')))"
    using assms by (simp add: handleAaiEvent_def Let_def call_defs)
  have b: "commits (snd (handleAaiEvent s (TranscriptUpdate t True e m))) = [t]"
    using assms by (simp add: update_commits)
  have c: "(\<forall>ev\<in>set evs. isUpdate ev) \<longrightarrow>
              commits (snd (handleAll s evs)) = map upd_text (filter isFinalUpdate evs)
              \<and> length (commits (snd (handleAll s evs))) = length (filter isFinalUpdate evs)"
    using updates_commits [OF assms, of evs] by simp
  from a b c show ?thesis by blast
qed

theorem final_update_commits_once_witness:
  "insertFinalHandler active0 = Some OnFinalText
   \<and> handleAaiEvent active0 (TranscriptUpdate (js '' hello world'') True (Some True) (Some True)) =
       (active0\<lparr>finalized := js ''hello world '', current := [], pendingUnformatted := []\<rparr>,
        [InsertFinal OnFinalText (js '' hello world''), InsertPartial [],
         StatusText (js ''hello world''), InsertPreview (js ''hello world'')])
   \<and> commits (snd (handleAll active0
        [TranscriptUpdate (js ''a'') True None None,
         TranscriptUpdate (js ''b'') False None None,
         TranscriptUpdate (js ''b c'') True None None])) = [js ''a'', js ''b c'']"
proof -
  have h: "insertFinalHandler active0 = Some OnFinalText"
    by (simp add: active0_eq)
  have u: "\<forall>ev\<in>set [TranscriptUpdate (js ''a'') True None None,
         TranscriptUpdate (js ''b'') False None None,
         TranscriptUpdate (js ''b c'') True None None]. isUpdate ev"
    by simp
  have t: "trim (js '' hello world'') = js ''hello world''"
      "trim (js ''hello world '') = js ''hello world''"
    by (simp_all add: trim_def js_def isWhiteSpace_def)
  have f: "finalized active0 = []" "insertPartialHandler active0" "onStatusText active0"
      "insertPreviewHandler active0"
    by (simp_all add: active0_eq)
  have j: "js ''hello world'' @ js '' '' = js ''hello world ''" "js ''hello world'' \<noteq> []"
    by (simp_all add: js_def)
  from final_update_commits_once [OF h, of "js '' hello world''" "Some True" "Some True"
      "[TranscriptUpdate (js ''a'') True None None,
         TranscriptUpdate (js ''b'') False None None,
         TranscriptUpdate (js ''b c'') True None None]"] u
  show ?thesis
    by (simp add: h t f j call_defs)
qed

section \<open>The unformatted tail at the end of a session\<close>

text \<open>
  Claim C2 as stated fails when the text of the update is white space only: the update is
  followed by \<open>SessionTerminated\<close>, yet the flush commits nothing and \<open>finalized\<close>
  is not extended.
\<close>

theorem unformatted_tail_counterexample:
  "commits (snd (handleAll active0 blank_tail)) = []
   \<and> finalized (fst (handleAll active0 blank_tail)) \<noteq> finalized active0 @ trim (js '' '') @ js '' ''"
  by (simp add: blank_tail_def active0_eq eval_defs)

text \<open>
  Claim C2, amended. In a session, when a non-final \<open>Update\<close> with end of turn set and
  \<open>formatted = false\<close> is followed directly by \<open>SessionTerminated\<close>: if the trimmed
  text is not empty, the commit callback is called once with the trimmed text, and the
  trimmed text and one space are appended to \<open>finalized\<close>; if the trimmed text is
  empty, nothing is committed and \<open>finalized\<close> is unchanged. The flush takes
  \<open>pendingUnformatted\<close> when it is not empty and \<open>current\<close> otherwise.
\<close>

theorem unformatted_tail_flushed:
  assumes "insertFinalHandler s = Some h"
  shows "(trim t \<noteq> [] \<longrightarrow>
            commits (snd (handleAll s [TranscriptUpdate t False (Some True) (Some False),
                                       SessionTerminated])) = [trim t]
            \<and> finalized (fst (handleAll s [TranscriptUpdate t False (Some True) (Some False),
                                       SessionTerminated])) = finalized s @ trim t @ js '' '')
         \<and> (trim t = [] \<longrightarrow>
            commits (snd (handleAll s [TranscriptUpdate t False (Some True) (Some False),
                                       SessionTerminated])) = []
            \<and> finalized (fst (handleAll s [TranscriptUpdate t False (Some True) (Some False),
                                       SessionTerminated])) = finalized s)
         \<and> flushPendingUnformatted s =
             (if trim (if pendingUnformatted s \<noteq> [] then pendingUnformatted s else current s) = []
              then (s, [])
              else (s\<lparr>finalized := finalized s
                      @ trim (if pendingUnformatted s \<noteq> [] then pendingUnformatted s else current s)
                      @ js '' '',
                      current := [], pendingUnformatted := []\<rparr>,
                    [InsertFinal h
                      (trim (if pendingUnformatted s \<noteq> [] then pendingUnformatted s else current s))]
                    @ call_insertPartialHandler s []))"
  using assms
  by (simp add: handleAaiEvent_def flushPendingUnformatted_def Let_def call_defs)

theorem unformatted_tail_flushed_witness:
  "commits (snd (handleAll active0 [TranscriptUpdate (js '' testing'') False (Some True) (Some False),
                                       SessionTerminated])) = [js ''testing'']
   \<and> finalized (fst (handleAll active0 [TranscriptUpdate (js '' testing'') False (Some True) (Some False),
                                       SessionTerminated])) = js ''testing ''"
proof -
  have h: "insertFinalHandler active0 = Some OnFinalText"
    by (simp add: active0_eq)
  have t: "trim (js '' testing'') = js ''testing''" "js ''testing'' \<noteq> []"
    "js ''testing'' @ js '' '' = js ''testing ''" "finalized active0 = []"
    by (simp_all add: trim_def js_def isWhiteSpace_def active0_eq)
  from unformatted_tail_flushed [OF h, of "js '' testing''"] show ?thesis
    by (simp add: t)
qed

section \<open>The preview after an update\<close>

text \<open>
  Claim C7 as stated fails when the computed preview is empty: the status callback does
  not receive the empty string but the placeholder, which the reconciler itself puts in;
  only the preview callback receives the empty string.
\<close>

theorem preview_counterexample:
  "trim (finalized (fst (handleAaiEvent active0 (TranscriptUpdate (js '' '') False None None)))
         @ current (fst (handleAaiEvent active0 (TranscriptUpdate (js '' '') False None None)))) = []
   \<and> statusTexts (snd (handleAaiEvent active0 (TranscriptUpdate (js '' '') False None None)))
       = [js ''Listening'' @ [0x2026]]
   \<and> previews (snd (handleAaiEvent active0 (TranscriptUpdate (js '' '') False None None))) = [[]]"
  by (simp add: active0_eq eval_defs)

text \<open>
  Claim C7, amended. After every \<open>Update\<close>, final or not, the preview is the trimmed
  concatenation of \<open>finalized\<close> and \<open>current\<close> as they are after the update. The
  preview callback, when supplied, is called once with exactly that string, empty or
  not. The status callback, when supplied, is called once with that string when it is
  not empty, and with the listening placeholder when it is empty.
\<close>

theorem preview_after_update:
  "statusTexts (snd (handleAaiEvent s (TranscriptUpdate t f e m))) =
     (if onStatusText s
      then [if trim (finalized (fst (handleAaiEvent s (TranscriptUpdate t f e m)))
                     @ current (fst (handleAaiEvent s (TranscriptUpdate t f e m)))) \<noteq> []
            then trim (finalized (fst (handleAaiEvent s (TranscriptUpdate t f e m)))
                       @ current (fst (handleAaiEvent s (TranscriptUpdate t f e m))))
            else listening]
      else [])
   \<and> previews (snd (handleAaiEvent s (TranscriptUpdate t f e m))) =
     (if insertPreviewHandler s
      then [trim (finalized (fst (handleAaiEvent s (TranscriptUpdate t f e m)))
                  @ current (fst (handleAaiEvent s (TranscriptUpdate t f e m))))]
      else [])"
  by (simp add: handleAaiEvent_def Let_def call_defs split: option.splits)

theorem preview_after_update_witness:
  "statusTexts (snd (handleAaiEvent active0 (TranscriptUpdate (js ''hello '') False None None)))
     = [js ''hello'']
   \<and> previews (snd (handleAaiEvent active0 (TranscriptUpdate (js ''hello '') False None None)))
     = [js ''hello'']"
proof -
  have s: "fst (handleAaiEvent active0 (TranscriptUpdate (js ''hello '') False None None))
           = active0\<lparr>current := js ''hello ''\<rparr>"
    by (simp add: handleAaiEvent_def Let_def)
  have t: "trim (js ''hello '') = js ''hello''" "js ''hello'' \<noteq> []"
    by (simp_all add: trim_def js_def isWhiteSpace_def)
  have f: "finalized active0 = []" "onStatusText active0" "insertPreviewHandler active0"
    by (simp_all add: active0_eq)
  from preview_after_update [of active0 "js ''hello ''" False None None] show ?thesis
    by (simp add: s t f)
qed

section \<open>Turn messages of the channel\<close>

text \<open>
  Claim C5. For an inbound message that parses to a value whose type is \<open>Turn\<close>: when
  the transcript is a non-empty string, exactly one \<open>Update\<close> is emitted, with that
  text, and it is final exactly when the end-of-turn field is truthy and either the
  turn-is-formatted field is truthy or the \<open>formatTurns\<close> option is off; when the
  transcript is missing, not a string, or the empty string, nothing is emitted.
\<close>

theorem turn_message_isFinal:
  assumes "d \<noteq> []" and "parse d = Some msg"
    and "getProp (Some msg) (js ''type'') = Some (JStr (js ''Turn''))"
  shows "(\<forall>t. getProp (Some msg) (js ''transcript'') = Some (JStr t) \<and> t \<noteq> [] \<longrightarrow>
            handleMessageString parse c d =
              [TranscriptUpdate t
                 (truthy (getProp (Some msg) (js ''end_of_turn''))
                  \<and> (truthy (getProp (Some msg) (js ''turn_is_formatted'')) \<or> \<not> formatTurns c))
                 (Some (truthy (getProp (Some msg) (js ''end_of_turn''))))
                 (Some (truthy (getProp (Some msg) (js ''turn_is_formatted''))))])
         \<and> ((\<forall>t. getProp (Some msg) (js ''transcript'') = Some (JStr t) \<longrightarrow> t = []) \<longrightarrow>
            handleMessageString parse c d = [])"
proof -
  have ne: "js ''Turn'' \<noteq> js ''Begin''"
    by (simp add: js_def)
  show ?thesis
    using assms ne
    by (auto simp: handleMessageString_def Let_def split: option.splits json.splits)
qed

theorem turn_message_isFinal_witness:
  "handleMessageString (\<lambda>d. Some (turn_msg (js ''hi'') True False)) (the (aai active0)) (js ''{}'')
     = [TranscriptUpdate (js ''hi'') False (Some True) (Some False)]
   \<and> handleMessageString (\<lambda>d. Some (turn_msg (js ''hi'') True True)) (the (aai active0)) (js ''{}'')
     = [TranscriptUpdate (js ''hi'') True (Some True) (Some True)]
   \<and> handleMessageString (\<lambda>d. Some (turn_msg [] True True)) (the (aai active0)) (js ''{}'') = []"
proof -
  have d: "js ''{}'' \<noteq> []" by (simp add: js_def)
  have k: "js ''type'' \<noteq> js ''transcript''" "js ''type'' \<noteq> js ''end_of_turn''"
    "js ''type'' \<noteq> js ''turn_is_formatted''" "js ''transcript'' \<noteq> js ''end_of_turn''"
    "js ''transcript'' \<noteq> js ''turn_is_formatted''" "js ''end_of_turn'' \<noteq> js ''turn_is_formatted''"
    "js ''end_of_turn'' \<noteq> js ''type''"  "js ''end_of_turn'' \<noteq> js ''transcript''"
    "js ''turn_is_formatted'' \<noteq> js ''type''" "js ''turn_is_formatted'' \<noteq> js ''transcript''"
    "js ''turn_is_formatted'' \<noteq> js ''end_of_turn''" "js ''transcript'' \<noteq> js ''type''"
    "js ''hi'' \<noteq> []"
    by (simp_all add: js_def)
  have p: "getProp (Some (turn_msg t e f)) (js ''type'') = Some (JStr (js ''Turn''))"
    "getProp (Some (turn_msg t e f)) (js ''transcript'') = Some (JStr t)"
    "getProp (Some (turn_msg t e f)) (js ''end_of_turn'') = Some (JBool e)"
    "getProp (Some (turn_msg t e f)) (js ''turn_is_formatted'') = Some (JBool f)" for t e f
    by (simp_all add: turn_msg_def k)
  have c: "formatTurns (the (aai active0))"
    by (simp add: active0_eq)
  from turn_message_isFinal [of "js ''{}''" "\<lambda>d. Some (turn_msg (js ''hi'') True False)"
         "turn_msg (js ''hi'') True False" "the (aai active0)"]
       turn_message_isFinal [of "js ''{}''" "\<lambda>d. Some (turn_msg (js ''hi'') True True)"
         "turn_msg (js ''hi'') True True" "the (aai active0)"]
       turn_message_isFinal [of "js ''{}''" "\<lambda>d. Some (turn_msg [] True True)"
         "turn_msg [] True True" "the (aai active0)"]
  show ?thesis
    by (simp add: d p k c)
qed

section \<open>What \<open>start\<close> resets\<close>

text \<open>
  Claim C6 says that \<open>start\<close> empties \<open>finalized\<close>, \<open>current\<close> and
  \<open>pendingUnformatted\<close>. The code empties the first two only. A service stopped
  after an unformatted end-of-turn partial of one space still holds that space in
  \<open>pendingUnformatted\<close>; it passes the guards of \<open>start\<close>, and after the reset the
  field is still the space. In the new session the stale value then hides the partial
  text at the flush: a partial \<open>hello\<close> followed by the end of the session is not
  committed, where a service that starts with an empty field commits it.
\<close>

theorem start_keeps_pendingUnformatted:
  "\<not> running stale0
   \<and> pendingUnformatted stale0 = js '' ''
   \<and> start_enter stale0 (Some target0) (Some (js ''key'')) config0 = (stale0, [], Some frame0)
   \<and> pendingUnformatted (fst (start_after_keyterms stale0 frame0 (KeytermsResolved []))) = js '' ''
   \<and> commits (snd (handleAll (start_resume_ok stale0 frame0) partial_tail)) = []
   \<and> commits (snd (handleAll (start_resume_ok newService frame0) partial_tail)) = [js ''hello'']"
  by (simp add: stale0_eq newService_def start_enter_def start_resume_ok_def start_after_mic_def
      start_after_connect_def start_after_keyterms_def frame0_def target0_def config0_def
      newClient_def partial_tail_def eval_defs)

section \<open>Authorization errors\<close>

lemma handleAaiEvent_aai_None: "aai s = None \<Longrightarrow> aai (fst (handleAaiEvent s ev)) = None"
  by (cases ev)
     (simp_all add: handleAaiEvent_def flushPendingUnformatted_def stop_def cleanup_def Let_def
        case_prod_beta)

lemma handleAll_aai_None: "aai s = None \<Longrightarrow> aai (fst (handleAll s evs)) = None"
proof (induction evs arbitrary: s)
  case Nil
  then show ?case by simp
next
  case (Cons ev evs)
  have "aai (fst (handleAaiEvent s ev)) = None"
    using Cons.prems by (rule handleAaiEvent_aai_None)
  then have "aai (fst (handleAll (fst (handleAaiEvent s ev)) evs)) = None"
    by (rule Cons.IH)
  then show ?case
    by (simp add: case_prod_beta)
qed

lemma start_after_mic_aai_None: "aai s = None \<Longrightarrow> aai (fst (start_after_mic s fr mo)) = None"
  by (cases mo) (simp_all add: start_after_mic_def stop_def cleanup_def Let_def case_prod_beta)

lemma stop_running:
  "running s \<Longrightarrow> \<not> running (fst (stop s)) \<and> aai (fst (stop s)) = None \<and> mic (fst (stop s)) = None
     \<and> \<not> unsubAai (fst (stop s))"
  by (simp add: stop_def cleanup_def Let_def case_prod_beta)

text \<open>
  Claim C8. While the session is running, an \<open>Error\<close> event whose lower-cased message
  includes \<open>not authorized\<close> stops the session: the running flag is off, the channel
  and the audio capture are released, and from then on, whatever events are handled,
  no chunk given to the chunk callback is written to a socket, also when the audio
  capture of a \<open>start\<close> still under way answers afterwards; the channel that was in
  use has been terminated and drops every chunk as well. An \<open>Error\<close> event without
  that text leaves the state as it is, so the session keeps running.
\<close>

theorem auth_error_stops:
  assumes "running s"
  shows "(includes_str (toLowerCase msg) (js ''not authorized'') \<longrightarrow>
            \<not> running (fst (handleAaiEvent s (ErrorEvent msg)))
            \<and> aai (fst (handleAaiEvent s (ErrorEvent msg))) = None
            \<and> mic (fst (handleAaiEvent s (ErrorEvent msg))) = None
            \<and> (\<forall>evs chunk. onPcm16Chunk (fst (handleAll (fst (handleAaiEvent s (ErrorEvent msg))) evs))
                             chunk = [])
            \<and> (\<forall>fr mo chunk. onPcm16Chunk
                   (fst (start_after_mic (fst (handleAaiEvent s (ErrorEvent msg))) fr mo)) chunk = [])
            \<and> (\<forall>c chunk. aai s = Some c \<longrightarrow> sendPcm16Chunk (fst (terminate c)) chunk = []))
         \<and> (\<not> includes_str (toLowerCase msg) (js ''not authorized'') \<longrightarrow>
            fst (handleAaiEvent s (ErrorEvent msg)) = s
            \<and> running (fst (handleAaiEvent s (ErrorEvent msg))))"
proof -
  have t: "sendPcm16Chunk (fst (terminate c)) chunk = []" for c chunk
    by (simp add: terminate_def sendPcm16Chunk_def)
  have n: "\<not> includes_str (toLowerCase msg) (js ''not authorized'') \<Longrightarrow>
           fst (handleAaiEvent s (ErrorEvent msg)) = s"
    by (simp add: handleAaiEvent_def Let_def)
  have y: "includes_str (toLowerCase msg) (js ''not authorized'') \<Longrightarrow>
           fst (handleAaiEvent s (ErrorEvent msg)) = fst (stop s)"
    by (simp add: handleAaiEvent_def Let_def case_prod_beta)
  have a: "onPcm16Chunk (fst (handleAll (fst (stop s)) evs)) chunk = []" for evs chunk
    using handleAll_aai_None [of "fst (stop s)" evs] stop_running [OF assms]
    by (simp add: onPcm16Chunk_def)
  have b: "onPcm16Chunk (fst (start_after_mic (fst (stop s)) fr mo)) chunk = []" for fr mo chunk
    using start_after_mic_aai_None [of "fst (stop s)" fr mo] stop_running [OF assms]
    by (simp add: onPcm16Chunk_def)
  show ?thesis
    using assms stop_running [OF assms] t n y a b by simp
qed

theorem auth_error_stops_witness:
  "running active0
   \<and> includes_str (toLowerCase (js ''Not Authorized: token expired'')) (js ''not authorized'')
   \<and> \<not> running (fst (handleAaiEvent active0 (ErrorEvent (js ''Not Authorized: token expired''))))
   \<and> onPcm16Chunk (fst (handleAaiEvent active0 (ErrorEvent (js ''Not Authorized: token expired''))))
        [1, 2] = []
   \<and> onPcm16Chunk active0 [1, 2] = [WsSend (AudioFrame [1, 2])]
   \<and> \<not> includes_str (toLowerCase (js ''Timeout'')) (js ''not authorized'')
   \<and> running (fst (handleAaiEvent active0 (ErrorEvent (js ''Timeout''))))"
proof -
  have r: "running active0"
    by (simp add: active0_eq)
  have i: "includes_str (toLowerCase (js ''Not Authorized: token expired'')) (js ''not authorized'')"
    by (simp add: toLowerCase_def lowerUnit_def js_def)
  have j: "\<not> includes_str (toLowerCase (js ''Timeout'')) (js ''not authorized'')"
    by (simp add: toLowerCase_def lowerUnit_def js_def)
  have o: "onPcm16Chunk active0 [1, 2] = [WsSend (AudioFrame [1, 2])]"
    by (simp add: onPcm16Chunk_def sendPcm16Chunk_def active0_eq)
  from auth_error_stops [OF r, of "js ''Not Authorized: token expired''"]
       auth_error_stops [OF r, of "js ''Timeout''"] i j r
  have "\<not> running (fst (handleAaiEvent active0 (ErrorEvent (js ''Not Authorized: token expired''))))"
    and "\<forall>evs chunk. onPcm16Chunk (fst (handleAll
            (fst (handleAaiEvent active0 (ErrorEvent (js ''Not Authorized: token expired'')))) evs))
            chunk = []"
    and "running (fst (handleAaiEvent active0 (ErrorEvent (js ''Timeout''))))"
    by simp_all
  from this(1) this(2) [rule_format, of "[]" "[1, 2]"] this(3) r i j o show ?thesis
    by simp
qed

section \<open>A second owner is turned away\<close>

text \<open>
  Claim C9. While the live session is running and its owner is not block B (another
  block, or nobody for the ad-hoc session), a request to start recording for block B
  returns \<open>false\<close>, shows one of the busy notices, and leaves the whole plugin state,
  the live service with its reconciler fields, channel and audio capture included,
  exactly as it was. For a stream request the notice says that another block is
  recording when the owner is a block, and that live transcription is already running
  when the session is ad hoc. (For a file request the recorded-audio service must
  exist, as it does once the plugin is loaded.)
\<close>

theorem busy_rejection:
  assumes "liveTranscribe p = Some lt" and "running lt"
    and "streamRecordingBlockId p \<noteq> Some (blockId opts)"
    and "mode opts = StreamMode \<or> recordedTranscribe p \<noteq> None"
  shows "(\<exists>n\<in>set busy_notices. startRecordingForBlock p opts = (p, [Notice n], BlockReturned False))
         \<and> (mode opts = StreamMode \<and> recordedTranscribe p = None \<longrightarrow>
              startRecordingForBlock p opts =
                (p, [Notice (if truthyId (streamRecordingBlockId p)
                             then js ''Another scribe block is recording.''
                             else js ''Live transcription is already running.'')],
                 BlockReturned False))"
proof (cases "mode opts")
  case StreamMode
  then show ?thesis
    using assms(1-3)
    by (auto simp: startRecordingForBlock_def busy_notices_def split: option.splits)
next
  case FileMode
  with assms(4) obtain r where r: "recordedTranscribe p = Some r"
    by auto
  show ?thesis
    using FileMode r assms(1,2)
    by (simp add: startRecordingForBlock_def startFileRecordingForBlock_def busy_notices_def)
qed

theorem busy_rejection_witness:
  "startRecordingForBlock plugin0 optsB =
     (plugin0, [Notice (js ''Another scribe block is recording.'')], BlockReturned False)
   \<and> startRecordingForBlock (plugin0\<lparr>streamRecordingBlockId := None\<rparr>) optsB =
     (plugin0\<lparr>streamRecordingBlockId := None\<rparr>,
      [Notice (js ''Live transcription is already running.'')], BlockReturned False)
   \<and> (\<exists>n\<in>set busy_notices. startRecordingForBlock plugin0 (optsB\<lparr>mode := FileMode\<rparr>) =
        (plugin0, [Notice n], BlockReturned False))"
proof -
  have a: "liveTranscribe plugin0 = Some active0" "running active0"
    "liveTranscribe (plugin0\<lparr>streamRecordingBlockId := None\<rparr>) = Some active0"
    by (simp_all add: plugin0_def active0_eq)
  have b: "streamRecordingBlockId plugin0 \<noteq> Some (blockId optsB)"
    "streamRecordingBlockId plugin0 \<noteq> Some (blockId (optsB\<lparr>mode := FileMode\<rparr>))"
    "streamRecordingBlockId (plugin0\<lparr>streamRecordingBlockId := None\<rparr>) \<noteq> Some (blockId optsB)"
    by (simp_all add: plugin0_def optsB_def js_def)
  have c: "mode optsB = StreamMode \<or> recordedTranscribe plugin0 \<noteq> None"
    "mode (optsB\<lparr>mode := FileMode\<rparr>) = StreamMode \<or> recordedTranscribe plugin0 \<noteq> None"
    "mode optsB = StreamMode
       \<or> recordedTranscribe (plugin0\<lparr>streamRecordingBlockId := None\<rparr>) \<noteq> None"
    by (simp_all add: plugin0_def optsB_def)
  have d: "startRecordingForBlock plugin0 optsB =
     (plugin0, [Notice (js ''Another scribe block is recording.'')], BlockReturned False)"
    "startRecordingForBlock (plugin0\<lparr>streamRecordingBlockId := None\<rparr>) optsB =
     (plugin0\<lparr>streamRecordingBlockId := None\<rparr>,
      [Notice (js ''Live transcription is already running.'')], BlockReturned False)"
    by (simp_all add: startRecordingForBlock_def plugin0_def optsB_def active0_eq js_def)
  from busy_rejection [OF a(1) a(2) b(2) c(2)] d show ?thesis
    by simp
qed

section \<open>The configuration is sanitized\<close>

text \<open>
  Claim C10. When \<open>start\<close> passes its guards, the sample rate it keeps is the
  configured one if that is finite and greater than zero and 16000 otherwise, and the
  chunk size is the configured one if that is finite and greater than zero and 800
  otherwise; both are finite and positive. The channel is created with that sample
  rate, and the audio capture is started with that chunk size and that sample rate.
\<close>

theorem start_sanitizes_config:
  assumes "start_enter s tgt key cfg = (s', e, Some fr)"
  shows "fr_sampleRate fr =
           (if isFinite (cfg_sampleRate cfg) \<and> gtZero (cfg_sampleRate cfg)
            then cfg_sampleRate cfg else Finite 16000)
         \<and> fr_chunkSizeSamples fr =
           (if isFinite (cfg_chunkSizeSamples cfg) \<and> gtZero (cfg_chunkSizeSamples cfg)
            then cfg_chunkSizeSamples cfg else Finite 800)
         \<and> isFinite (fr_sampleRate fr) \<and> gtZero (fr_sampleRate fr)
         \<and> isFinite (fr_chunkSizeSamples fr) \<and> gtZero (fr_chunkSizeSamples fr)
         \<and> (\<forall>s1 kt. map_option sampleRate (aai (fst (start_after_keyterms s1 fr kt)))
                      = Some (fr_sampleRate fr))
         \<and> (\<forall>s2. snd (start_after_connect s2 fr ConnectResolved)
                  = ([MicStartRequest (fr_chunkSizeSamples fr) (fr_sampleRate fr)], True))
         \<and> (\<forall>s3. mic (fst (start_after_mic s3 fr MicResolved))
                  = Some \<lparr> mic_chunkSizeSamples = fr_chunkSizeSamples fr,
                           mic_sampleRate = fr_sampleRate fr \<rparr>)"
proof -
  have fr: "fr = \<lparr> fr_target = tgt,
                   fr_apiKey = (case key of None \<Rightarrow> [] | Some k \<Rightarrow> trim k),
                   fr_config = cfg,
                   fr_sampleRate =
                     (if isFinite (cfg_sampleRate cfg) \<and> gtZero (cfg_sampleRate cfg)
                      then cfg_sampleRate cfg else Finite 16000),
                   fr_chunkSizeSamples =
                     (if isFinite (cfg_chunkSizeSamples cfg) \<and> gtZero (cfg_chunkSizeSamples cfg)
                      then cfg_chunkSizeSamples cfg else Finite 800) \<rparr>"
    using assms by (auto simp: start_enter_def Let_def split: if_splits)
  have a: "map_option sampleRate (aai (fst (start_after_keyterms s1 fr kt))) = Some (fr_sampleRate fr)"
    for s1 kt
    by (simp add: start_after_keyterms_def Let_def newClient_def)
  have b: "snd (start_after_connect s2 fr ConnectResolved)
             = ([MicStartRequest (fr_chunkSizeSamples fr) (fr_sampleRate fr)], True)" for s2
    by (simp add: start_after_connect_def)
  have c: "mic (fst (start_after_mic s3 fr MicResolved))
             = Some \<lparr> mic_chunkSizeSamples = fr_chunkSizeSamples fr,
                      mic_sampleRate = fr_sampleRate fr \<rparr>" for s3
    by (simp add: start_after_mic_def Let_def)
  have d: "isFinite (fr_sampleRate fr) \<and> gtZero (fr_sampleRate fr)
         \<and> isFinite (fr_chunkSizeSamples fr) \<and> gtZero (fr_chunkSizeSamples fr)"
    by (simp add: fr)
  have g: "fr_sampleRate fr =
           (if isFinite (cfg_sampleRate cfg) \<and> gtZero (cfg_sampleRate cfg)
            then cfg_sampleRate cfg else Finite 16000)
         \<and> fr_chunkSizeSamples fr =
           (if isFinite (cfg_chunkSizeSamples cfg) \<and> gtZero (cfg_chunkSizeSamples cfg)
            then cfg_chunkSizeSamples cfg else Finite 800)"
    by (simp add: fr)
  from a b c d g show ?thesis
    by blast
qed

theorem start_sanitizes_config_witness:
  "start_enter newService (Some target0) (Some (js ''key'')) config_bad
     = (newService, [], Some (frame0\<lparr>fr_config := config_bad\<rparr>))
   \<and> fr_sampleRate (frame0\<lparr>fr_config := config_bad\<rparr>) = Finite 16000
   \<and> fr_chunkSizeSamples (frame0\<lparr>fr_config := config_bad\<rparr>) = Finite 800
   \<and> map_option sampleRate
       (aai (fst (start_after_keyterms newService (frame0\<lparr>fr_config := config_bad\<rparr>)
                    KeytermsRejected))) = Some (Finite 16000)
   \<and> snd (start_after_connect newService (frame0\<lparr>fr_config := config_bad\<rparr>) ConnectResolved)
       = ([MicStartRequest (Finite 800) (Finite 16000)], True)"
proof -
  have e: "start_enter newService (Some target0) (Some (js ''key'')) config_bad
     = (newService, [], Some (frame0\<lparr>fr_config := config_bad\<rparr>))"
    by (simp add: start_enter_def newService_def config_bad_def config0_def frame0_def js_def
        trim_def isWhiteSpace_def)
  have c: "cfg_sampleRate config_bad = NaN" "cfg_chunkSizeSamples config_bad = Finite (- 5)"
    by (simp_all add: config_bad_def)
  note w = start_sanitizes_config [OF e]
  from w have r: "fr_sampleRate (frame0\<lparr>fr_config := config_bad\<rparr>) = Finite 16000"
    "fr_chunkSizeSamples (frame0\<lparr>fr_config := config_bad\<rparr>) = Finite 800"
    by (simp_all add: c)
  from w have k: "map_option sampleRate
       (aai (fst (start_after_keyterms newService (frame0\<lparr>fr_config := config_bad\<rparr>)
                    KeytermsRejected))) = Some (fr_sampleRate (frame0\<lparr>fr_config := config_bad\<rparr>))"
    by blast
  from w have m: "snd (start_after_connect newService (frame0\<lparr>fr_config := config_bad\<rparr>)
         ConnectResolved)
       = ([MicStartRequest (fr_chunkSizeSamples (frame0\<lparr>fr_config := config_bad\<rparr>))
             (fr_sampleRate (frame0\<lparr>fr_config := config_bad\<rparr>))], True)"
    by blast
  from e r k m show ?thesis
    by (simp only: simp_thms)
qed

end
